theory Spec2Isabelle
  imports Main
begin

section \<open>SelectPicker: values, options and configuration\<close>

text \<open>
  The component of \<^verbatim>\<open>src/SelectPicker/SelectPicker.tsx\<close> is a React function component:
  its body runs once per render, and its event handlers are closures over the values of
  that render. A handler is modelled as a function from the state of the render it
  closes over to the state after all its statements have run. Every statement that
  writes state or calls out of the component is also appended to a trace, in program
  order, so that the order of effects can be stated.
\<close>

subsection \<open>JavaScript values\<close>

text \<open>
  Option values are \<^verbatim>\<open>T extends number | string\<close>, a Selection is
  \<^verbatim>\<open>T | null | undefined\<close>, and labels, placeholders and rendered content are
  React nodes. One datatype covers them. Numbers are integers here: the component
  only tests them for equality and for truthiness. \<open>Elem\<close> is an opaque React element.
\<close>

datatype jsval = Undefined | Null | Bool bool | Num int | Str string | Elem string

text \<open>lodash \<^verbatim>\<open>isNil\<close>: null or undefined.\<close>

fun isNil :: "jsval \<Rightarrow> bool" where
  "isNil Undefined = True"
| "isNil Null = True"
| "isNil (Bool b) = False"
| "isNil (Num n) = False"
| "isNil (Str s) = False"
| "isNil (Elem e) = False"

text \<open>JavaScript truthiness, as tested by \<^verbatim>\<open>!x\<close>, \<^verbatim>\<open>if (x)\<close> and \<^verbatim>\<open>x || y\<close>.\<close>

fun truthy :: "jsval \<Rightarrow> bool" where
  "truthy Undefined = False"
| "truthy Null = False"
| "truthy (Bool b) = b"
| "truthy (Num n) = (n \<noteq> 0)"
| "truthy (Str s) = (s \<noteq> [])"
| "truthy (Elem e) = True"

text \<open>
  An option (\<^verbatim>\<open>ItemDataType\<close>) is an object; \<^verbatim>\<open>item[key]\<close> of a missing key is
  undefined.
\<close>

type_synonym item = "(string \<times> jsval) list"

definition item_get :: "item \<Rightarrow> string \<Rightarrow> jsval" where
  "item_get it k = (case map_of it k of None \<Rightarrow> Undefined | Some v \<Rightarrow> v)"

text \<open>
  Modelled from the spec: \<^verbatim>\<open>shallowEqual\<close> of \<^verbatim>\<open>../utils\<close> is not among the sources.
  The spec identifies an option "by equality of the configured value field"; on the
  primitive values compared here that is equality of the two values.
\<close>

definition shallowEqual :: "jsval \<Rightarrow> jsval \<Rightarrow> bool" where
  "shallowEqual a b = (a = b)"

subsection \<open>Props\<close>

type_synonym event = string

text \<open>
  The props the modelled code reads. A callback prop is caller code: only whether it
  was supplied matters (\<^verbatim>\<open>onChange?.(...)\<close> calls it only then), so it is a flag.
  \<open>renderValue\<close> is kept as a function, since its result is used. \<open>valueProp\<close> is
  \<open>Undefined\<close> when the caller passes no \<^verbatim>\<open>value\<close>. \<open>locale_placeholder\<close> is
  \<^verbatim>\<open>locale?.placeholder\<close>, which comes from \<^verbatim>\<open>useCustom\<close>. The prop \<^verbatim>\<open>sort\<close> is
  the field \<open>sort_prop\<close>.
\<close>

record props =
  data :: "item list"
  valueKey :: string
  labelKey :: string
  valueProp :: jsval
  defaultValue :: jsval
  placeholder :: jsval
  locale_placeholder :: jsval
  disabled :: bool
  cleanable :: bool
  groupBy :: "string option"
  searchBy :: "(string \<Rightarrow> jsval \<Rightarrow> item \<Rightarrow> bool) option"
  sort_prop :: "(bool \<Rightarrow> item \<Rightarrow> item \<Rightarrow> int) option"
  renderValue :: "(jsval \<Rightarrow> item option \<Rightarrow> jsval \<Rightarrow> jsval) option"
  onSelect :: bool
  onChange :: bool
  onSearch :: bool
  onOpen :: bool
  onClose :: bool

subsection \<open>State and trace\<close>

text \<open>
  The effects a handler can have: the four state setters, the three callbacks into
  the overlay trigger and the toggle button (\<^verbatim>\<open>triggerRef.current?.close?.()\<close>,
  \<^verbatim>\<open>targetRef.current?.focus()\<close>; both refs are attached while the component is
  mounted), and the caller's callbacks.
\<close>

datatype effect =
    SetValue jsval
  | SetFocusItemValue jsval
  | SetSearchKeyword string
  | SetActive bool
  | OnSelect jsval "item option" event
  | FocusTarget
  | OnChange jsval event
  | CloseOverlay
  | OnSearch string event
  | OnOpen
  | OnClose

record state =
  uncontrolledValue :: jsval
  focusItemValue :: jsval
  searchKeyword :: string
  active :: bool
  trace :: "effect list"

definition emit :: "effect \<Rightarrow> state \<Rightarrow> state" where
  "emit e s = s\<lparr>trace := trace s @ [e]\<rparr>"

text \<open>What a handler added to the trace.\<close>

definition emitted :: "state \<Rightarrow> state \<Rightarrow> effect list" where
  "emitted s s' = drop (length (trace s)) (trace s')"

text \<open>
  Modelled from the spec: \<^verbatim>\<open>useControlled\<close> of \<^verbatim>\<open>../utils\<close> is not among the
  sources. Spec 4.1: the value controller "exposes current Selection and a setter. If
  the caller supplies an external value, the setter becomes a no-op passthrough ...
  (the caller owns state); otherwise the setter updates internal state directly."
\<close>

definition isControlled :: "props \<Rightarrow> bool" where
  "isControlled p = (valueProp p \<noteq> Undefined)"

definition useControlled_value :: "props \<Rightarrow> state \<Rightarrow> jsval" where
  "useControlled_value p s = (if isControlled p then valueProp p else uncontrolledValue s)"

definition setValue :: "props \<Rightarrow> jsval \<Rightarrow> state \<Rightarrow> state" where
  "setValue p v s =
     emit (SetValue v) (if isControlled p then s else s\<lparr>uncontrolledValue := v\<rparr>)"

text \<open>
  Modelled from the spec: \<^verbatim>\<open>useFocusItemValue\<close> and \<^verbatim>\<open>useSearch\<close> of \<^verbatim>\<open>../Picker\<close>
  are not among the sources. FocusedValue and SearchKeyword are state cells "owned by
  the component"; their setters store the value. \<open>setActive\<close> is the setter of
  \<^verbatim>\<open>useState(false)\<close>.
\<close>

definition setFocusItemValue :: "jsval \<Rightarrow> state \<Rightarrow> state" where
  "setFocusItemValue v s = emit (SetFocusItemValue v) (s\<lparr>focusItemValue := v\<rparr>)"

definition setSearchKeyword :: "string \<Rightarrow> state \<Rightarrow> state" where
  "setSearchKeyword k s = emit (SetSearchKeyword k) (s\<lparr>searchKeyword := k\<rparr>)"

definition setActive :: "bool \<Rightarrow> state \<Rightarrow> state" where
  "setActive b s = emit (SetActive b) (s\<lparr>active := b\<rparr>)"

section \<open>The event handlers\<close>

text \<open>Lines 210-212.\<close>

definition handleClose :: "state \<Rightarrow> state" where
  "handleClose s = emit CloseOverlay s"

text \<open>Lines 214-220: \<^verbatim>\<open>onSelect?.(value, item, event); targetRef.current?.focus()\<close>.\<close>

definition handleSelect :: "props \<Rightarrow> jsval \<Rightarrow> item option \<Rightarrow> event \<Rightarrow> state \<Rightarrow> state" where
  "handleSelect p v it ev s =
     (let s1 = (if onSelect p then emit (OnSelect v it ev) s else s)
      in emit FocusTarget s1)"

text \<open>Lines 222-227.\<close>

definition handleChangeValue :: "props \<Rightarrow> jsval \<Rightarrow> event \<Rightarrow> state \<Rightarrow> state" where
  "handleChangeValue p v ev s = (if onChange p then emit (OnChange v ev) s else s)"

text \<open>
  Lines 229-244. \<^verbatim>\<open>focusItemValue\<close> is the value of the render the handler closes
  over. \<^verbatim>\<open>data.find\<close> gives undefined (\<open>None\<close>) when no option matches.
\<close>

definition handleMenuPressEnter :: "props \<Rightarrow> event \<Rightarrow> state \<Rightarrow> state" where
  "handleMenuPressEnter p ev s =
     (let f = focusItemValue s in
      if \<not> truthy f then s
      else
        let focusItem = find (\<lambda>it. shallowEqual (item_get it (valueKey p)) f) (data p);
            s1 = setValue p f s;
            s2 = handleSelect p f focusItem ev s1;
            s3 = handleChangeValue p f ev s2
        in handleClose s3)"

text \<open>Lines 246-256: the menu's \<^verbatim>\<open>onSelect\<close>, called with the clicked option.\<close>

definition handleItemSelect :: "props \<Rightarrow> jsval \<Rightarrow> item \<Rightarrow> event \<Rightarrow> state \<Rightarrow> state" where
  "handleItemSelect p v it ev s =
     (let s1 = setValue p v s;
          s2 = setFocusItemValue v s1;
          s3 = handleSelect p v (Some it) ev s2;
          s4 = handleChangeValue p v ev s3
      in handleClose s4)"

text \<open>
  Lines 258-268. \<^verbatim>\<open>value\<close> in \<^verbatim>\<open>setFocusItemValue(value)\<close> is the Selection of the
  render the handler closes over, read before \<^verbatim>\<open>setValue(null)\<close> takes effect.
\<close>

definition handleClean :: "props \<Rightarrow> event \<Rightarrow> state \<Rightarrow> state" where
  "handleClean p ev s =
     (let v = useControlled_value p s in
      if disabled p \<or> \<not> cleanable p then s
      else
        let s1 = setValue p Null s;
            s2 = setFocusItemValue v s1
        in handleChangeValue p Null ev s2)"

text \<open>
  Lines 280-282: the \<^verbatim>\<open>onClose\<close> hook handed to \<^verbatim>\<open>useToggleKeyDownEvent\<close>, the
  keyboard dispatcher.
\<close>

definition useToggleKeyDownEvent_onClose :: "state \<Rightarrow> state" where
  "useToggleKeyDownEvent_onClose s = setFocusItemValue Null s"

text \<open>Lines 286-290: the overlay has closed.\<close>

definition handleExited :: "props \<Rightarrow> state \<Rightarrow> state" where
  "handleExited p s =
     (let s1 = setSearchKeyword [] s;
          s2 = setActive False s1
      in if onClose p then emit OnClose s2 else s2)"

text \<open>Lines 292-296: the overlay has opened.\<close>

definition handleEntered :: "props \<Rightarrow> state \<Rightarrow> state" where
  "handleEntered p s =
     (let v = useControlled_value p s;
          s1 = setActive True s;
          s2 = setFocusItemValue v s1
      in if onOpen p then emit OnOpen s2 else s2)"

text \<open>
  Lines 192-200: the callback handed to \<^verbatim>\<open>useSearch\<close>, which calls it with the
  keyword, the new filtered list and the event. \<^verbatim>\<open>filteredData?.[0]?.[valueKey]\<close>
  is undefined when the list is empty.
\<close>

definition useSearch_callback :: "props \<Rightarrow> string \<Rightarrow> item list \<Rightarrow> event \<Rightarrow> state \<Rightarrow> state" where
  "useSearch_callback p kw fd ev s =
     (let s1 = setFocusItemValue
                 (case fd of [] \<Rightarrow> Undefined | x # _ \<Rightarrow> item_get x (valueKey p)) s
      in if onSearch p then emit (OnSearch kw ev) s1 else s1)"

text \<open>
  Modelled from the spec: the filter of \<^verbatim>\<open>useSearch\<close> (in \<^verbatim>\<open>../Picker\<close>) is not among
  the sources. Spec 4.2: "given the full OptionList and a keyword, returns the
  subsequence of options whose label -- or a caller-supplied predicate over (keyword,
  label, option) -- matches. Matching is case-insensitive substring match by
  default." A label that is not a string has the empty text here; the spec does not
  say what its text is.
\<close>

definition toLowerCase :: "string \<Rightarrow> string" where
  "toLowerCase s =
     map (\<lambda>c. case map_of (zip ''ABCDEFGHIJKLMNOPQRSTUVWXYZ'' ''abcdefghijklmnopqrstuvwxyz'') c of
                 None \<Rightarrow> c
               | Some d \<Rightarrow> d) s"

fun includes_str :: "string \<Rightarrow> string \<Rightarrow> bool" where
  "includes_str [] kw = (kw = [])"
| "includes_str (c # cs) kw = (take (length kw) (c # cs) = kw \<or> includes_str cs kw)"

definition shouldDisplay :: "props \<Rightarrow> string \<Rightarrow> item \<Rightarrow> bool" where
  "shouldDisplay p kw it =
     (let label = item_get it (labelKey p) in
      case searchBy p of
        Some f \<Rightarrow> f kw label it
      | None \<Rightarrow>
          includes_str (toLowerCase (case label of Str l \<Rightarrow> l | _ \<Rightarrow> [])) (toLowerCase kw))"

text \<open>
  Modelled from the spec: the filtered result. Spec 8: "the filtered result depends
  only on the current OptionList and the latest keyword (no stale filtering)"; spec 5:
  derived state such as the filtered list "is recomputed synchronously and
  deterministically from current inputs on each render pass".
\<close>

definition filteredData_of :: "props \<Rightarrow> state \<Rightarrow> item list" where
  "filteredData_of p s = filter (shouldDisplay p (searchKeyword s)) (data p)"

text \<open>
  Modelled from the spec: \<^verbatim>\<open>handleSearch\<close> of \<^verbatim>\<open>useSearch\<close>, the search bar's
  \<^verbatim>\<open>onChange\<close> (line 375). Spec 4.4: "typing while searchable and overlay open
  updates SearchKeyword"; spec 4.2: the filter "recomputes on every keyword change",
  and the callback is invoked "with the keyword and the originating event".
\<close>

definition handleSearch :: "props \<Rightarrow> string \<Rightarrow> event \<Rightarrow> state \<Rightarrow> state" where
  "handleSearch p kw ev s =
     (let s1 = setSearchKeyword kw s
      in useSearch_callback p kw (filteredData_of p s1) ev s1)"

section \<open>Rendering the toggle\<close>

text \<open>Line 301.\<close>

definition activeItem :: "props \<Rightarrow> state \<Rightarrow> item option" where
  "activeItem p s =
     find (\<lambda>it. shallowEqual (item_get it (valueKey p)) (useControlled_value p s)) (data p)"

text \<open>Line 307: the first value of \<^verbatim>\<open>hasValue\<close>. A found option is an object, so truthy.\<close>

definition hasValue_first :: "props \<Rightarrow> state \<Rightarrow> bool" where
  "hasValue_first p s =
     (activeItem p s \<noteq> None \<or> (\<not> isNil (useControlled_value p s) \<and> renderValue p \<noteq> None))"

text \<open>Lines 311-315: the placeholder, replaced by the active option's label if truthy.\<close>

definition selectedElement_first :: "props \<Rightarrow> state \<Rightarrow> jsval" where
  "selectedElement_first p s =
     (case activeItem p s of
        None \<Rightarrow> placeholder p
      | Some it \<Rightarrow>
          if truthy (item_get it (labelKey p)) then item_get it (labelKey p) else placeholder p)"

text \<open>
  Lines 317-323: the pair of \<^verbatim>\<open>hasValue\<close> and \<^verbatim>\<open>selectedElement\<close> after the
  custom renderer, if any, has run.
\<close>

definition render_value :: "props \<Rightarrow> state \<Rightarrow> bool \<times> jsval" where
  "render_value p s =
     (let v = useControlled_value p s;
          hv = hasValue_first p s;
          se = selectedElement_first p s
      in case renderValue p of
           None \<Rightarrow> (hv, se)
         | Some rv \<Rightarrow>
             if \<not> isNil v then
               (let se' = rv v (activeItem p s) se
                in (if isNil se' then False else hv, se'))
             else (hv, se))"

definition hasValue :: "props \<Rightarrow> state \<Rightarrow> bool" where
  "hasValue p s = fst (render_value p s)"

definition selectedElement :: "props \<Rightarrow> state \<Rightarrow> jsval" where
  "selectedElement p s = snd (render_value p s)"


section \<open>Rendering the menu: the items array\<close>

text \<open>
  \<^verbatim>\<open>filteredData\<close> is an array held in the state of \<^verbatim>\<open>useSearch\<close>; the render reads
  it by reference. Arrays live in a store, and a variable holds a reference.
\<close>

type_synonym ref = nat
type_synonym store = "ref \<Rightarrow> item list option"

text \<open>
  \<^verbatim>\<open>Array.prototype.sort\<close> with a comparator: negative or zero keeps \<open>x\<close> before
  \<open>y\<close>. The sort is stable; for a comparator that is a consistent order this is what
  every engine returns.
\<close>

fun insert_by :: "('a \<Rightarrow> 'a \<Rightarrow> int) \<Rightarrow> 'a \<Rightarrow> 'a list \<Rightarrow> 'a list" where
  "insert_by cmp x [] = [x]"
| "insert_by cmp x (y # ys) =
     (if cmp x y \<le> 0 then x # y # ys else y # insert_by cmp x ys)"

definition sort_by :: "('a \<Rightarrow> 'a \<Rightarrow> int) \<Rightarrow> 'a list \<Rightarrow> 'a list" where
  "sort_by cmp xs = foldr (insert_by cmp) xs []"

text \<open>
  \<^verbatim>\<open>arr.sort(cmp)\<close> sorts the array in place and returns the same reference.
\<close>

definition array_sort :: "(item \<Rightarrow> item \<Rightarrow> int) \<Rightarrow> ref \<Rightarrow> store \<Rightarrow> ref \<times> store" where
  "array_sort cmp r h =
     (case h r of None \<Rightarrow> (r, h) | Some xs \<Rightarrow> (r, h(r \<mapsto> sort_by cmp xs)))"

text \<open>
  Lines 329-336 of \<^verbatim>\<open>renderDropdownMenu\<close>: the reference \<^verbatim>\<open>items\<close> that the menu is
  built from, and the store afterwards. \<^verbatim>\<open>getDataGroupBy\<close> of \<^verbatim>\<open>../utils\<close> is not
  among the sources and is a parameter. \<^verbatim>\<open>if (groupBy)\<close> tests a string for
  truthiness.
\<close>

definition renderDropdownMenu_items ::
  "(ref \<Rightarrow> string \<Rightarrow> (bool \<Rightarrow> item \<Rightarrow> item \<Rightarrow> int) option \<Rightarrow> store \<Rightarrow> ref \<times> store)
     \<Rightarrow> props \<Rightarrow> ref \<Rightarrow> store \<Rightarrow> ref \<times> store" where
  "renderDropdownMenu_items getDataGroupBy p filteredData h =
     (let items = filteredData in
      case groupBy p of
        Some g \<Rightarrow>
          if g \<noteq> [] then getDataGroupBy items g (sort_prop p) h
          else (case sort_prop p of None \<Rightarrow> (items, h) | Some f \<Rightarrow> array_sort (f False) items h)
      | None \<Rightarrow>
          (case sort_prop p of None \<Rightarrow> (items, h) | Some f \<Rightarrow> array_sort (f False) items h))"

section \<open>What the specification says, for comparison\<close>

text \<open>
  Spec 4.1, the effects of a commit "in order": update Selection, update FocusedValue,
  selection notification, change notification, close the overlay.
\<close>

definition commit_effects_spec :: "jsval \<Rightarrow> item option \<Rightarrow> event \<Rightarrow> effect list" where
  "commit_effects_spec v it ev =
     [SetValue v, SetFocusItemValue v, OnSelect v it ev, OnChange v ev, CloseOverlay]"


section \<open>Concrete inputs\<close>

text \<open>
  The defaults of the props destructuring (lines 119-162), with no optional prop
  supplied, and the data of the scenario of spec section 8.
\<close>

definition default_props :: props where
  "default_props =
     \<lparr>data = [], valueKey = ''value'', labelKey = ''label'', valueProp = Undefined,
      defaultValue = Undefined, placeholder = Undefined, locale_placeholder = Str ''Select'',
      disabled = False, cleanable = True, groupBy = None, searchBy = None, sort_prop = None,
      renderValue = None, onSelect = False, onChange = False, onSearch = False,
      onOpen = False, onClose = False\<rparr>"

definition item_zero :: item where
  "item_zero = [(''value'', Num 0), (''label'', Str ''Zero'')]"

definition item_one :: item where
  "item_one = [(''value'', Num 1), (''label'', Str ''One'')]"

definition item_two :: item where
  "item_two = [(''value'', Num 2), (''label'', Str ''Two'')]"

text \<open>The scenario's picker, with every callback supplied.\<close>

definition scenario_props :: props where
  "scenario_props =
     default_props\<lparr>data := [item_one, item_two], defaultValue := Num 1,
       placeholder := Str ''Pick'', onSelect := True, onChange := True, onSearch := True,
       onOpen := True, onClose := True\<rparr>"

text \<open>The scenario after "tw" was typed: Selection 1, option 2 focused, overlay open.\<close>

definition scenario_state :: state where
  "scenario_state =
     \<lparr>uncontrolledValue = Num 1, focusItemValue = Num 2, searchKeyword = ''tw'',
      active = True, trace = []\<rparr>"

text \<open>The same, with nothing focused (the keyword matched no option).\<close>

definition nothing_focused_state :: state where
  "nothing_focused_state = scenario_state\<lparr>focusItemValue := Undefined, searchKeyword := ''xyz''\<rparr>"

text \<open>A picker whose first option has the value 0, and that option focused.\<close>

definition zero_props :: props where
  "zero_props = scenario_props\<lparr>data := [item_zero, item_one]\<rparr>"

definition zero_focused_state :: state where
  "zero_focused_state = scenario_state\<lparr>focusItemValue := Num 0, searchKeyword := []\<rparr>"

text \<open>A custom renderer that suppresses the value by returning null.\<close>

definition null_render_props :: props where
  "null_render_props = scenario_props\<lparr>renderValue := Some (\<lambda>v it se. Null)\<rparr>"

text \<open>
  A comparator on the value field, ascending; a picker whose data lists option 2 before
  option 1; and the store in which the filtered array (reference 0, nothing filtered
  out) holds them in that order.
\<close>

definition by_value :: "bool \<Rightarrow> item \<Rightarrow> item \<Rightarrow> int" where
  "by_value isGroup a b =
     (case (item_get a ''value'', item_get b ''value'') of
        (Num x, Num y) \<Rightarrow> x - y
      | _ \<Rightarrow> 0)"

definition sorting_props :: props where
  "sorting_props = scenario_props\<lparr>data := [item_two, item_one], sort_prop := Some by_value\<rparr>"

definition unsorted_store :: store where
  "unsorted_store = Map.empty(0 \<mapsto> [item_two, item_one])"

section \<open>Properties\<close>

lemmas state_defs =
  emit_def emitted_def setValue_def setFocusItemValue_def isControlled_def
  useControlled_value_def

lemmas scenario_defs =
  default_props_def scenario_props_def scenario_state_def item_one_def item_two_def
  item_get_def shallowEqual_def

subsection \<open>Committing a Selection\<close>

text \<open>
  C1, amended. A click on an option performs, in this order: setValue(v),
  setFocusItemValue(v), onSelect(v, the clicked option) when onSelect is supplied,
  focus of the toggle button, onChange(v) when onChange is supplied, close of the
  overlay. Enter with a truthy FocusedValue f performs, in this order: setValue(f),
  onSelect(f, the first option of \<open>data\<close> whose value equals f, or undefined) when
  onSelect is supplied, focus of the toggle button, onChange(f) when onChange is
  supplied, close of the overlay; it does not write FocusedValue, which already is f.
  After either, FocusedValue is the committed value, and the Selection is the
  committed value when the component owns it and the caller's value otherwise.
\<close>

theorem commit_effects_in_order:
  "emitted s (handleItemSelect p v it ev s) =
     [SetValue v, SetFocusItemValue v] @ (if onSelect p then [OnSelect v (Some it) ev] else [])
       @ [FocusTarget] @ (if onChange p then [OnChange v ev] else []) @ [CloseOverlay]
   \<and> focusItemValue (handleItemSelect p v it ev s) = v
   \<and> useControlled_value p (handleItemSelect p v it ev s)
       = (if isControlled p then valueProp p else v)
   \<and> (truthy (focusItemValue s) \<longrightarrow>
        emitted s (handleMenuPressEnter p ev s) =
          [SetValue (focusItemValue s)]
            @ (if onSelect p
               then [OnSelect (focusItemValue s)
                       (find (\<lambda>it. item_get it (valueKey p) = focusItemValue s) (data p)) ev]
               else [])
            @ [FocusTarget] @ (if onChange p then [OnChange (focusItemValue s) ev] else [])
            @ [CloseOverlay]
      \<and> focusItemValue (handleMenuPressEnter p ev s) = focusItemValue s
      \<and> useControlled_value p (handleMenuPressEnter p ev s)
          = (if isControlled p then valueProp p else focusItemValue s))"
  by (simp add: handleItemSelect_def handleMenuPressEnter_def handleClose_def handleSelect_def
      handleChangeValue_def shallowEqual_def state_defs Let_def)

theorem commit_effects_in_order_witness:
  "truthy (focusItemValue scenario_state)
   \<and> emitted scenario_state (handleItemSelect scenario_props (Num 2) item_two ''key'' scenario_state) =
       [SetValue (Num 2), SetFocusItemValue (Num 2), OnSelect (Num 2) (Some item_two) ''key'',
        FocusTarget, OnChange (Num 2) ''key'', CloseOverlay]
   \<and> emitted scenario_state (handleMenuPressEnter scenario_props ''key'' scenario_state) =
       [SetValue (Num 2), OnSelect (Num 2) (Some item_two) ''key'', FocusTarget,
        OnChange (Num 2) ''key'', CloseOverlay]
   \<and> useControlled_value scenario_props
        (handleMenuPressEnter scenario_props ''key'' scenario_state) = Num 2
   \<and> emitted scenario_state
        (handleMenuPressEnter (scenario_props\<lparr>onSelect := False\<rparr>) ''key'' scenario_state) =
       [SetValue (Num 2), FocusTarget, OnChange (Num 2) ''key'', CloseOverlay]
   \<and> useControlled_value (scenario_props\<lparr>onSelect := False\<rparr>)
        (handleItemSelect (scenario_props\<lparr>onSelect := False\<rparr>) (Num 2) item_two ''key''
           scenario_state) = Num 2"
proof -
  have c: "truthy (focusItemValue scenario_state)" "\<not> isControlled scenario_props"
    "onSelect scenario_props" "onChange scenario_props"
    "focusItemValue scenario_state = Num 2"
    "find (\<lambda>it. item_get it (valueKey scenario_props) = Num 2) (data scenario_props)
       = Some item_two"
    by (simp_all add: scenario_defs isControlled_def)
  have d: "\<not> isControlled (scenario_props\<lparr>onSelect := False\<rparr>)"
    "\<not> onSelect (scenario_props\<lparr>onSelect := False\<rparr>)"
    "onChange (scenario_props\<lparr>onSelect := False\<rparr>)"
    by (simp_all add: scenario_defs isControlled_def)
  from commit_effects_in_order
    [where p = scenario_props and s = scenario_state and v = "Num 2" and it = item_two
       and ev = "''key''"]
    commit_effects_in_order
    [where p = "scenario_props\<lparr>onSelect := False\<rparr>" and s = scenario_state and v = "Num 2"
       and it = item_two and ev = "''key''"]
  show ?thesis using c d by simp
qed

text \<open>
  The order as the spec words it does not hold. In the scenario, Enter on the focused
  option 2 performs no update of FocusedValue at all, and both Enter and a click focus
  the toggle button between the two notifications.
\<close>

theorem enter_commit_not_spec_order:
  "emitted scenario_state (handleMenuPressEnter scenario_props ''keydown'' scenario_state)
     \<noteq> commit_effects_spec (Num 2) (Some item_two) ''keydown''
   \<and> SetFocusItemValue (Num 2)
       \<notin> set (emitted scenario_state (handleMenuPressEnter scenario_props ''keydown'' scenario_state))
   \<and> emitted scenario_state (handleItemSelect scenario_props (Num 2) item_two ''click'' scenario_state)
     \<noteq> commit_effects_spec (Num 2) (Some item_two) ''click''"
  by (simp add: handleItemSelect_def handleMenuPressEnter_def handleClose_def handleSelect_def
      handleChangeValue_def state_defs scenario_defs commit_effects_spec_def Let_def)

subsection \<open>Clearing\<close>

text \<open>
  C2. A clear request does nothing when the component is disabled or not cleanable:
  the state, and with it the Selection and the trace, is returned as it was, so onChange
  is not called. Otherwise the setter of the value controller is called with null
  (which makes the Selection null when the component owns it), FocusedValue becomes the
  Selection of before the clear, and onChange, when supplied, is called with null, in
  that order.
\<close>

theorem handleClean_effects:
  "(disabled p \<or> \<not> cleanable p \<longrightarrow> handleClean p ev s = s)
   \<and> (\<not> disabled p \<and> cleanable p \<longrightarrow>
        focusItemValue (handleClean p ev s) = useControlled_value p s
        \<and> (\<not> isControlled p \<longrightarrow> useControlled_value p (handleClean p ev s) = Null)
        \<and> (onChange p \<longrightarrow>
             emitted s (handleClean p ev s) =
               [SetValue Null, SetFocusItemValue (useControlled_value p s), OnChange Null ev]))"
  by (simp add: handleClean_def handleChangeValue_def state_defs Let_def)

theorem handleClean_effects_witness:
  "handleClean (scenario_props\<lparr>disabled := True\<rparr>) ''click'' scenario_state = scenario_state
   \<and> handleClean (scenario_props\<lparr>cleanable := False\<rparr>) ''click'' scenario_state = scenario_state
   \<and> useControlled_value scenario_props (handleClean scenario_props ''click'' scenario_state) = Null
   \<and> focusItemValue (handleClean scenario_props ''click'' scenario_state) = Num 1
   \<and> emitted scenario_state (handleClean scenario_props ''click'' scenario_state) =
       [SetValue Null, SetFocusItemValue (Num 1), OnChange Null ''click'']"
proof -
  have a: "disabled (scenario_props\<lparr>disabled := True\<rparr>)"
    and b: "\<not> cleanable (scenario_props\<lparr>cleanable := False\<rparr>)"
    and c: "\<not> disabled scenario_props" "cleanable scenario_props" "onChange scenario_props"
      "\<not> isControlled scenario_props" "useControlled_value scenario_props scenario_state = Num 1"
    by (simp_all add: scenario_defs isControlled_def useControlled_value_def)
  from handleClean_effects [of "scenario_props\<lparr>disabled := True\<rparr>" "''click''" scenario_state]
    handleClean_effects [of "scenario_props\<lparr>cleanable := False\<rparr>" "''click''" scenario_state]
    handleClean_effects [of scenario_props "''click''" scenario_state]
  show ?thesis using a b c by simp
qed

text \<open>
  C10. A clear never calls onSelect and never closes the overlay: the component's
  \<open>active\<close> flag and SearchKeyword are as before, and the only entries it adds to the
  trace are the two setter calls and onChange(null), the last being present whenever
  the clear is allowed and onChange is supplied.
\<close>

theorem handleClean_frame:
  "active (handleClean p ev s) = active s
   \<and> searchKeyword (handleClean p ev s) = searchKeyword s
   \<and> CloseOverlay \<notin> set (emitted s (handleClean p ev s))
   \<and> (\<forall>v it e. OnSelect v it e \<notin> set (emitted s (handleClean p ev s)))
   \<and> set (emitted s (handleClean p ev s))
       \<subseteq> {SetValue Null, SetFocusItemValue (useControlled_value p s), OnChange Null ev}
   \<and> (\<not> disabled p \<and> cleanable p \<and> onChange p \<longrightarrow>
        OnChange Null ev \<in> set (emitted s (handleClean p ev s)))"
  by (simp add: handleClean_def handleChangeValue_def state_defs Let_def)

theorem handleClean_frame_witness:
  "active (handleClean scenario_props ''click'' scenario_state)
   \<and> searchKeyword (handleClean scenario_props ''click'' scenario_state) = ''tw''
   \<and> CloseOverlay \<notin> set (emitted scenario_state (handleClean scenario_props ''click'' scenario_state))
   \<and> OnChange Null ''click''
       \<in> set (emitted scenario_state (handleClean scenario_props ''click'' scenario_state))"
proof -
  have a: "\<not> disabled scenario_props" "cleanable scenario_props" "onChange scenario_props"
    "active scenario_state" "searchKeyword scenario_state = ''tw''"
    by (simp_all add: scenario_defs)
  from handleClean_frame [of scenario_props "''click''" scenario_state]
  show ?thesis using a by simp
qed

subsection \<open>Enter\<close>

text \<open>
  C3. When FocusedValue is null or undefined, Enter commits nothing: the handler
  returns at its guard with the state it was given, so the Selection is unchanged and
  the trace gains no entry (no onSelect, no onChange, no close). No statement of the
  handler can throw, and none is reached here.
\<close>

theorem handleMenuPressEnter_nil_focus:
  "isNil (focusItemValue s) \<Longrightarrow> handleMenuPressEnter p ev s = s"
  by (cases "focusItemValue s") (simp_all add: handleMenuPressEnter_def)

theorem handleMenuPressEnter_nil_focus_witness:
  "isNil (focusItemValue nothing_focused_state)
   \<and> handleMenuPressEnter scenario_props ''keydown'' nothing_focused_state = nothing_focused_state"
proof -
  have a: "isNil (focusItemValue nothing_focused_state)"
    by (simp add: nothing_focused_state_def scenario_defs)
  from handleMenuPressEnter_nil_focus [OF a] a show ?thesis by simp
qed

text \<open>
  C9, at the input where the code departs from it. The option with value 0 is in
  \<open>data\<close> and is focused, so FocusedValue is not null; Enter returns at the guard
  \<^verbatim>\<open>!focusItemValue\<close> and commits nothing, while a click on the same option commits it.
\<close>

theorem handleMenuPressEnter_zero_focus:
  "\<not> isNil (focusItemValue zero_focused_state)
   \<and> find (\<lambda>it. shallowEqual (item_get it (valueKey zero_props)) (focusItemValue zero_focused_state))
        (data zero_props) = Some item_zero
   \<and> handleMenuPressEnter zero_props ''keydown'' zero_focused_state = zero_focused_state
   \<and> emitted zero_focused_state
        (handleItemSelect zero_props (Num 0) item_zero ''click'' zero_focused_state) =
       [SetValue (Num 0), SetFocusItemValue (Num 0), OnSelect (Num 0) (Some item_zero) ''click'',
        FocusTarget, OnChange (Num 0) ''click'', CloseOverlay]"
  by (simp add: handleMenuPressEnter_def handleItemSelect_def handleClose_def handleSelect_def
      handleChangeValue_def state_defs scenario_defs zero_props_def zero_focused_state_def
      item_zero_def Let_def)

subsection \<open>Searching\<close>

text \<open>
  C4, amended. Each time the callback is called with a keyword, a filtered result and
  an event, FocusedValue becomes the value of the first option of that result, or,
  when it is empty, undefined (the absent value: \<open>isNil\<close> holds of it); then onSearch,
  when supplied, is called with the keyword and the event. A search, that is a
  keyword entered in the search bar, stores the keyword and calls the callback with
  the options of \<open>data\<close> that match it. When the overlay has closed, the keyword is
  reset to the empty string, so the filtered result becomes the options matching the
  empty keyword; FocusedValue is not updated and onSearch is not called.
\<close>

theorem search_effects:
  "focusItemValue (useSearch_callback p kw fd ev s) =
     (case fd of [] \<Rightarrow> Undefined | x # xs \<Rightarrow> item_get x (valueKey p))
   \<and> (fd = [] \<longrightarrow> isNil (focusItemValue (useSearch_callback p kw fd ev s)))
   \<and> emitted s (useSearch_callback p kw fd ev s) =
       [SetFocusItemValue (focusItemValue (useSearch_callback p kw fd ev s))]
         @ (if onSearch p then [OnSearch kw ev] else [])
   \<and> searchKeyword (handleSearch p kw ev s) = kw
   \<and> filteredData_of p (handleSearch p kw ev s) = filter (shouldDisplay p kw) (data p)
   \<and> focusItemValue (handleSearch p kw ev s) =
       (case filter (shouldDisplay p kw) (data p) of
          [] \<Rightarrow> Undefined
        | x # xs \<Rightarrow> item_get x (valueKey p))
   \<and> emitted s (handleSearch p kw ev s) =
       [SetSearchKeyword kw, SetFocusItemValue (focusItemValue (handleSearch p kw ev s))]
         @ (if onSearch p then [OnSearch kw ev] else [])
   \<and> filteredData_of p (handleExited p s) = filter (shouldDisplay p []) (data p)
   \<and> focusItemValue (handleExited p s) = focusItemValue s
   \<and> (\<forall>k e. OnSearch k e \<notin> set (emitted s (handleExited p s)))
   \<and> (\<forall>v. SetFocusItemValue v \<notin> set (emitted s (handleExited p s)))"
  by (simp add: useSearch_callback_def handleSearch_def handleExited_def filteredData_of_def
      setSearchKeyword_def setActive_def state_defs Let_def)

theorem search_effects_witness:
  "focusItemValue (handleSearch scenario_props ''tw'' ''input'' scenario_state) = Num 2
   \<and> emitted scenario_state (handleSearch scenario_props ''tw'' ''input'' scenario_state) =
       [SetSearchKeyword ''tw'', SetFocusItemValue (Num 2), OnSearch ''tw'' ''input'']
   \<and> isNil (focusItemValue (useSearch_callback scenario_props ''xyz'' [] ''input'' scenario_state))
   \<and> emitted scenario_state
        (useSearch_callback scenario_props ''xyz'' [] ''input'' scenario_state) =
       [SetFocusItemValue Undefined, OnSearch ''xyz'' ''input'']
   \<and> filteredData_of scenario_props (handleExited scenario_props scenario_state)
       = [item_one, item_two]
   \<and> focusItemValue (handleExited scenario_props scenario_state) = Num 2"
proof -
  have a: "onSearch scenario_props" "item_get item_two (valueKey scenario_props) = Num 2"
    "filter (shouldDisplay scenario_props ''tw'') (data scenario_props) = [item_two]"
    "filter (shouldDisplay scenario_props []) (data scenario_props) = [item_one, item_two]"
    "focusItemValue scenario_state = Num 2"
    by (simp_all add: shouldDisplay_def toLowerCase_def scenario_defs)
  from search_effects [of scenario_props "''tw''" "[]" "''input''" scenario_state]
    search_effects [of scenario_props "''xyz''" "[]" "''input''" scenario_state]
  show ?thesis using a by simp
qed

text \<open>
  The filtered result can change with no update of FocusedValue and no call of
  onSearch. In the scenario the filtered result is [Two] while the overlay is open with
  the keyword "tw"; once the overlay has closed it is [One, Two], whose first option
  has the value 1, while FocusedValue still is 2 and onSearch was not called.
\<close>

theorem close_changes_filtered_result_silently:
  "filteredData_of scenario_props scenario_state = [item_two]
   \<and> filteredData_of scenario_props (handleExited scenario_props scenario_state)
       = [item_one, item_two]
   \<and> item_get item_one (valueKey scenario_props) = Num 1
   \<and> focusItemValue (handleExited scenario_props scenario_state) = Num 2
   \<and> (\<forall>k e. OnSearch k e
           \<notin> set (emitted scenario_state (handleExited scenario_props scenario_state)))"
  by (simp add: filteredData_of_def shouldDisplay_def toLowerCase_def handleExited_def
      setSearchKeyword_def setActive_def state_defs scenario_defs Let_def)

subsection \<open>Opening and closing the overlay\<close>

text \<open>
  C7, amended. When the overlay has opened, \<open>active\<close> is set, FocusedValue is set to
  the current Selection, and onOpen, when supplied, fires, in that order. When the
  overlay has closed, SearchKeyword is reset to the empty string, \<open>active\<close> is cleared,
  and onClose, when supplied, fires, in that order; FocusedValue is left as it was.
  FocusedValue is reset to null only by the onClose hook of the keyboard dispatcher.
\<close>

theorem overlay_open_close_effects:
  "focusItemValue (handleEntered p s) = useControlled_value p s
   \<and> active (handleEntered p s)
   \<and> (onOpen p \<longrightarrow>
        emitted s (handleEntered p s) =
          [SetActive True, SetFocusItemValue (useControlled_value p s), OnOpen])
   \<and> searchKeyword (handleExited p s) = []
   \<and> \<not> active (handleExited p s)
   \<and> focusItemValue (handleExited p s) = focusItemValue s
   \<and> (onClose p \<longrightarrow>
        emitted s (handleExited p s) = [SetSearchKeyword [], SetActive False, OnClose])
   \<and> focusItemValue (useToggleKeyDownEvent_onClose s) = Null
   \<and> emitted s (useToggleKeyDownEvent_onClose s) = [SetFocusItemValue Null]"
  by (simp add: handleEntered_def handleExited_def useToggleKeyDownEvent_onClose_def
      setSearchKeyword_def setActive_def state_defs Let_def)

theorem overlay_open_close_effects_witness:
  "focusItemValue (handleEntered scenario_props scenario_state) = Num 1
   \<and> emitted scenario_state (handleEntered scenario_props scenario_state) =
       [SetActive True, SetFocusItemValue (Num 1), OnOpen]
   \<and> searchKeyword (handleExited scenario_props scenario_state) = []
   \<and> focusItemValue (handleExited scenario_props scenario_state) = Num 2
   \<and> emitted scenario_state (handleExited scenario_props scenario_state) =
       [SetSearchKeyword [], SetActive False, OnClose]"
proof -
  have a: "onOpen scenario_props" "onClose scenario_props"
    "useControlled_value scenario_props scenario_state = Num 1"
    "focusItemValue scenario_state = Num 2"
    by (simp_all add: scenario_defs isControlled_def useControlled_value_def)
  from overlay_open_close_effects [of scenario_props scenario_state]
  show ?thesis using a by simp
qed

text \<open>
  A close that does not come from the keyboard dispatcher runs \<open>handleExited\<close> alone.
  In the scenario it leaves option 2 focused: FocusedValue is not cleared, and no
  setter of it is called.
\<close>

theorem handleExited_keeps_focus:
  "focusItemValue (handleExited scenario_props scenario_state) = Num 2
   \<and> \<not> isNil (focusItemValue (handleExited scenario_props scenario_state))
   \<and> (\<forall>v. SetFocusItemValue v
           \<notin> set (emitted scenario_state (handleExited scenario_props scenario_state)))"
  by (simp add: handleExited_def setSearchKeyword_def setActive_def state_defs scenario_defs
      Let_def)

subsection \<open>The toggle\<close>

text \<open>
  C5. \<^verbatim>\<open>hasValue\<close> is computed in two passes. The option matching the Selection
  is the first option of \<open>data\<close> whose value field equals the Selection. The first pass
  makes \<^verbatim>\<open>hasValue\<close> true exactly when some option of \<open>data\<close> has the Selection as its
  value, or the Selection is not null or undefined and \<open>renderValue\<close> is supplied. The
  final value is the first one, except that it is false when \<open>renderValue\<close> was called
  (it is supplied and the Selection is not null or undefined) and returned null or
  undefined; what is tested is the display content \<^verbatim>\<open>selectedElement\<close> that the call
  produced.
\<close>

theorem hasValue_two_pass:
  "activeItem p s = find (\<lambda>it. item_get it (valueKey p) = useControlled_value p s) (data p)
   \<and> hasValue_first p s =
       ((\<exists>it \<in> set (data p). item_get it (valueKey p) = useControlled_value p s)
        \<or> (\<not> isNil (useControlled_value p s) \<and> renderValue p \<noteq> None))
   \<and> hasValue p s =
       (hasValue_first p s
        \<and> \<not> (\<exists>rv. renderValue p = Some rv \<and> \<not> isNil (useControlled_value p s)
                 \<and> isNil (rv (useControlled_value p s)
                            (find (\<lambda>it. item_get it (valueKey p) = useControlled_value p s) (data p))
                            (selectedElement_first p s))))
   \<and> (\<forall>rv. renderValue p = Some rv \<and> \<not> isNil (useControlled_value p s) \<longrightarrow>
         selectedElement p s =
           rv (useControlled_value p s)
              (find (\<lambda>it. item_get it (valueKey p) = useControlled_value p s) (data p))
              (selectedElement_first p s))"
proof -
  have a: "activeItem p s
             = find (\<lambda>it. item_get it (valueKey p) = useControlled_value p s) (data p)"
    by (simp add: activeItem_def shallowEqual_def)
  have b: "(activeItem p s \<noteq> None)
             = (\<exists>it \<in> set (data p). item_get it (valueKey p) = useControlled_value p s)"
    unfolding a by (auto simp add: find_None_iff)
  have c: "hasValue_first p s =
       ((\<exists>it \<in> set (data p). item_get it (valueKey p) = useControlled_value p s)
        \<or> (\<not> isNil (useControlled_value p s) \<and> renderValue p \<noteq> None))"
    unfolding hasValue_first_def b by simp
  have d: "hasValue p s =
       (hasValue_first p s
        \<and> \<not> (\<exists>rv. renderValue p = Some rv \<and> \<not> isNil (useControlled_value p s)
                 \<and> isNil (rv (useControlled_value p s) (activeItem p s)
                            (selectedElement_first p s))))"
    by (auto simp add: hasValue_def render_value_def hasValue_first_def Let_def
        split: option.splits)
  have e: "\<forall>rv. renderValue p = Some rv \<and> \<not> isNil (useControlled_value p s) \<longrightarrow>
         selectedElement p s =
           rv (useControlled_value p s) (activeItem p s) (selectedElement_first p s)"
    by (auto simp add: selectedElement_def render_value_def Let_def split: option.splits)
  from a c d e show ?thesis by simp
qed

theorem hasValue_two_pass_witness:
  "hasValue_first null_render_props scenario_state
   \<and> \<not> hasValue null_render_props scenario_state
   \<and> selectedElement null_render_props scenario_state = Null
   \<and> hasValue scenario_props scenario_state
   \<and> activeItem scenario_props (scenario_state\<lparr>uncontrolledValue := Num 2\<rparr>) = Some item_two
   \<and> hasValue scenario_props (scenario_state\<lparr>uncontrolledValue := Num 2\<rparr>)
   \<and> activeItem scenario_props (scenario_state\<lparr>uncontrolledValue := Num 5\<rparr>) = None
   \<and> \<not> hasValue scenario_props (scenario_state\<lparr>uncontrolledValue := Num 5\<rparr>)"
proof -
  have a: "renderValue null_render_props = Some (\<lambda>v it se. Null)"
    "renderValue scenario_props = None"
    "useControlled_value null_render_props scenario_state = Num 1"
    "useControlled_value scenario_props scenario_state = Num 1"
    "useControlled_value scenario_props (scenario_state\<lparr>uncontrolledValue := Num 2\<rparr>) = Num 2"
    "useControlled_value scenario_props (scenario_state\<lparr>uncontrolledValue := Num 5\<rparr>) = Num 5"
    "data scenario_props = [item_one, item_two]"
    "data null_render_props = [item_one, item_two]"
    "item_get item_one (valueKey scenario_props) = Num 1"
    "item_get item_two (valueKey scenario_props) = Num 2"
    "item_get item_one (valueKey null_render_props) = Num 1"
    "item_get item_two (valueKey null_render_props) = Num 2"
    by (simp_all add: null_render_props_def scenario_defs isControlled_def
        useControlled_value_def)
  from hasValue_two_pass [of null_render_props scenario_state]
    hasValue_two_pass [of scenario_props scenario_state]
    hasValue_two_pass [of scenario_props "scenario_state\<lparr>uncontrolledValue := Num 2\<rparr>"]
    hasValue_two_pass [of scenario_props "scenario_state\<lparr>uncontrolledValue := Num 5\<rparr>"]
  show ?thesis using a by simp
qed




subsection \<open>The menu\<close>

text \<open>
  C6, at the input where the code departs from it. With a \<^verbatim>\<open>sort\<close> prop and no
  \<^verbatim>\<open>groupBy\<close>, the render sorts the filtered array itself: the array that the state
  holds under reference 0 is [Two, One] before the render and [One, Two] after it, and
  the menu is built from that same reference.
\<close>

theorem renderDropdownMenu_sorts_filteredData_in_place:
  "unsorted_store 0 = Some [item_two, item_one]
   \<and> fst (renderDropdownMenu_items gdb sorting_props 0 unsorted_store) = 0
   \<and> snd (renderDropdownMenu_items gdb sorting_props 0 unsorted_store) 0
       = Some [item_one, item_two]"
  by (simp add: renderDropdownMenu_items_def array_sort_def sort_by_def by_value_def
      sorting_props_def unsorted_store_def scenario_defs)

end
